theory Spec2Isabelle
  imports Complex_Main
begin

section \<open>The water-level service of main.py\<close>

text \<open>
  main.py is a FastAPI application over one SQLite table, \<^verbatim>\<open>water_levels\<close>, with two
  POST handlers that insert readings, two GET handlers that read them back and one GET
  handler that forecasts the next 15 days with an ARIMA model of statsmodels.

  The embedding keeps the handlers' names. A handler takes the database session it is
  given by \<^verbatim>\<open>Depends(get_db)\<close> and returns its response together with the session
  afterwards; a raised exception is the \<open>Inl\<close> of a sum, a returned dictionary the
  \<open>Inr\<close>. A level, a finite Python \<^verbatim>\<open>float\<close>, is modelled by a \<open>real\<close>: the handlers
  store and copy levels and count them, and never compute with a level themselves.
\<close>

subsection \<open>Data\<close>

text \<open>The row class \<^verbatim>\<open>WaterLevelModel\<close>: columns \<^verbatim>\<open>id\<close> (integer primary key) and
  \<^verbatim>\<open>level\<close> (float, not null).\<close>

record WaterLevelModel =
  id_col :: int
  level_col :: real

text \<open>The request bodies \<^verbatim>\<open>WaterLevel\<close> and \<^verbatim>\<open>WaterLevels\<close>.\<close>

record WaterLevel =
  level :: real

record WaterLevels =
  levels :: "WaterLevel list"

text \<open>The session's view of the table: its rows in the order a scan of the table
  returns them, which for this table is the order of insertion.\<close>

type_synonym Session = "WaterLevelModel list"

text \<open>What a handler returns is a dictionary that FastAPI writes out as JSON. A
  dictionary is an association list, in the order the keys were written.\<close>

datatype json =
  JNumber real
  | JString string
  | JArray "json list"
  | JObject "(string \<times> json) list"

text \<open>The exceptions that can leave a handler: \<^verbatim>\<open>HTTPException(status_code, detail)\<close>,
  raised by the handlers themselves, an exception raised inside the statsmodels call,
  with its message, and the exception that \<^verbatim>\<open>db.commit()\<close> raises when the database
  refuses a statement. They are different classes, hence different constructors.\<close>

datatype exn =
  HTTPException nat string
  | LibError string
  | DBAPIError

type_synonym response = "exn + json"

subsection \<open>The database session\<close>

text \<open>
  Modelled from the spec: the id of the first row of an empty table. The database engine
  that fills the primary key on INSERT is not part of main.py; the spec speaks of ``the
  store's initial id''. It is 1 for the integer primary key of the SQLite table that
  main.py creates.
\<close>

definition initial_id :: int where
  "initial_id = 1"

text \<open>
  Modelled from the spec: the id the database engine gives to a new row. The spec says
  that an insert ``assigns the next sequential id'' and that ids are ``strictly
  increasing, gap-free'': a new row gets one more than the largest id of the table, and
  \<open>initial_id\<close> in an empty table.
\<close>

definition next_id :: "Session \<Rightarrow> int" where
  "next_id db = fold max (map id_col db) (initial_id - 1) + 1"

text \<open>\<^verbatim>\<open>db.add(WaterLevelModel(level=x)); db.commit()\<close>: one row appended, its id assigned.\<close>

definition add :: "real \<Rightarrow> Session \<Rightarrow> WaterLevelModel \<times> Session" where
  "add x db =
     (let new_level = \<lparr>id_col = next_id db, level_col = x\<rparr>
      in (new_level, db @ [new_level]))"

text \<open>\<^verbatim>\<open>db.add_all(new_levels); db.commit()\<close>: the objects are inserted one after the
  other, in the order of the list, within one transaction.\<close>

fun add_all :: "real list \<Rightarrow> Session \<Rightarrow> WaterLevelModel list \<times> Session" where
  "add_all [] db = ([], db)"
| "add_all (x # xs) db =
     (let (r, db1) = add x db;
          (rs, db2) = add_all xs db1
      in (r # rs, db2))"

text \<open>
  A database can refuse an INSERT (a violated constraint, a locked or full database
  file): \<open>accepts db r\<close> says whether the database executes the INSERT of the row \<open>r\<close>
  into the table \<open>db\<close>.

  \<^verbatim>\<open>db.commit()\<close> after \<^verbatim>\<open>db.add_all(new_levels)\<close>, on such a database. The session
  is made by \<^verbatim>\<open>sessionmaker(autocommit=False, autoflush=False)\<close>, so the INSERTs wait
  for the commit and are one transaction. \<open>flush\<close> inserts the rows in the order of the
  list and stops at the first INSERT the database refuses; \<open>commit\<close> then raises and the
  transaction is rolled back: the table is the one before the commit.
\<close>

type_synonym database = "Session \<Rightarrow> WaterLevelModel \<Rightarrow> bool"

fun flush :: "database \<Rightarrow> real list \<Rightarrow> Session \<Rightarrow> (WaterLevelModel list \<times> Session) option" where
  "flush accepts [] db = Some ([], db)"
| "flush accepts (x # xs) db =
     (let (r, db1) = add x db
      in if accepts db r
         then (case flush accepts xs db1 of
                 None \<Rightarrow> None
               | Some (rs, db2) \<Rightarrow> Some (r # rs, db2))
         else None)"

definition commit ::
  "database \<Rightarrow> real list \<Rightarrow> Session \<Rightarrow> exn + WaterLevelModel list \<times> Session" where
  "commit accepts pending db =
     (case flush accepts pending db of
        None \<Rightarrow> Inl DBAPIError
      | Some (rows, db') \<Rightarrow> Inr (rows, db'))"

text \<open>\<^verbatim>\<open>db.query(WaterLevelModel).all()\<close>.\<close>

definition query_all :: "Session \<Rightarrow> WaterLevelModel list" where
  "query_all db = db"

text \<open>\<^verbatim>\<open>db.query(WaterLevelModel).order_by(WaterLevelModel.id.desc()).first()\<close>:
  the rows sorted by id, largest first, and the first of them; \<^verbatim>\<open>None\<close> when there is
  no row.\<close>

definition order_by_id_desc :: "WaterLevelModel list \<Rightarrow> WaterLevelModel list" where
  "order_by_id_desc rows = rev (sort_key id_col rows)"

definition first :: "'a list \<Rightarrow> 'a option" where
  "first rows = (case rows of [] \<Rightarrow> None | r # _ \<Rightarrow> Some r)"

text \<open>The primary key orders the table: a scan returns the rows by increasing id.\<close>

definition pk_increasing :: "Session \<Rightarrow> bool" where
  "pk_increasing db = sorted_wrt (<) (map id_col db)"

subsection \<open>The statsmodels library\<close>

text \<open>
  \<^verbatim>\<open>ARIMA(series, order=(p, d, q)).fit()\<close> and \<^verbatim>\<open>model_fit.forecast(steps=n).tolist()\<close>
  are calls into statsmodels. The library is a parameter of the model: \<open>ARIMA_fit\<close> maps
  a series and an order to a fitted model or to the message of the exception it raises,
  \<open>forecast\<close> maps a fitted model and a number of steps to the predicted values.
  The calls a function makes are returned with its result, in the order they are made.
\<close>

type_synonym order = "nat \<times> nat \<times> nat"

record 'm statsmodels =
  ARIMA_fit :: "real list \<Rightarrow> order \<Rightarrow> string + 'm"
  forecast :: "'m \<Rightarrow> nat \<Rightarrow> real list"

datatype lib_call =
  Fit "real list" order
  | Forecast nat

fun is_Fit :: "lib_call \<Rightarrow> bool" where
  "is_Fit (Fit _ _) = True"
| "is_Fit (Forecast _) = False"

subsection \<open>The functions of main.py\<close>

text \<open>\<^verbatim>\<open>load_water_levels\<close>: the level column of every row.\<close>

definition load_water_levels :: "Session \<Rightarrow> real list" where
  "load_water_levels db = map level_col db"

text \<open>\<^verbatim>\<open>forecast_water_levels(data, days_ahead=15)\<close>: fits ARIMA with order (5, 1, 0) to
  the data and forecasts \<open>days_ahead\<close> steps. Nothing is caught: an exception of the fit
  leaves the function.\<close>

definition forecast_water_levels ::
  "'m statsmodels \<Rightarrow> real list \<Rightarrow> nat \<Rightarrow> (exn + real list) \<times> lib_call list" where
  "forecast_water_levels lib data days_ahead =
     (case ARIMA_fit lib data (5, 1, 0) of
        Inl msg \<Rightarrow> (Inl (LibError msg), [Fit data (5, 1, 0)])
      | Inr model_fit \<Rightarrow>
          (Inr (forecast lib model_fit days_ahead), [Fit data (5, 1, 0), Forecast days_ahead]))"

text \<open>POST /water-level/\<close>

definition add_water_level :: "WaterLevel \<Rightarrow> Session \<Rightarrow> response \<times> Session" where
  "add_water_level data db =
     (let (new_level, db') = add (level data) db
      in (Inr (JObject [(''message'', JString ''Water level added successfully''),
                        (''level'', JNumber (level_col new_level))]),
          db'))"

text \<open>POST /water-levels/\<close>

definition add_multiple_water_levels :: "WaterLevels \<Rightarrow> Session \<Rightarrow> response \<times> Session" where
  "add_multiple_water_levels data db =
     (let (new_levels, db') = add_all (map level (levels data)) db
      in (Inr (JObject [(''message'', JString ''Water levels added successfully''),
                        (''levels'', JArray (map (\<lambda>entry. JNumber (level_col entry)) new_levels))]),
          db'))"

text \<open>POST /water-levels/ on a database that can refuse an INSERT: the objects are added
  to the session, and the one \<^verbatim>\<open>db.commit()\<close> of the handler writes them. When it
  raises, the handler is left by the exception, \<^verbatim>\<open>get_db\<close> closes the session, and
  nothing of the request is in the table.\<close>

definition add_multiple_water_levels_tx ::
  "database \<Rightarrow> WaterLevels \<Rightarrow> Session \<Rightarrow> response \<times> Session" where
  "add_multiple_water_levels_tx accepts data db =
     (case commit accepts (map level (levels data)) db of
        Inl e \<Rightarrow> (Inl e, db)
      | Inr (new_levels, db') \<Rightarrow>
          (Inr (JObject [(''message'', JString ''Water levels added successfully''),
                         (''levels'',
                          JArray (map (\<lambda>entry. JNumber (level_col entry)) new_levels))]),
           db'))"

text \<open>GET /water-level/latest/\<close>

definition get_latest_water_level :: "Session \<Rightarrow> response \<times> Session" where
  "get_latest_water_level db =
     (case first (order_by_id_desc db) of
        None \<Rightarrow> (Inl (HTTPException 404 ''No water level data available''), db)
      | Some result \<Rightarrow> (Inr (JObject [(''latest_level'', JNumber (level_col result))]), db))"

text \<open>GET /water-level/all/\<close>

definition get_all_water_levels :: "Session \<Rightarrow> response \<times> Session" where
  "get_all_water_levels db =
     (let results = query_all db
      in if results = [] then (Inl (HTTPException 404 ''No water level data available''), db)
         else (Inr (JObject [(''all_levels'',
                              JArray (map (\<lambda>entry. JNumber (level_col entry)) results))]),
               db))"

text \<open>Python's \<^verbatim>\<open>str\<close> of a natural number, for the f-string \<^verbatim>\<open>f"day_{i+1}"\<close>.\<close>

fun str_nat :: "nat \<Rightarrow> string" where
  "str_nat n =
     (if n < 10 then [''0123456789'' ! n]
      else str_nat (n div 10) @ [''0123456789'' ! (n mod 10)])"

declare str_nat.simps [simp del]

text \<open>GET /water-level/forecast/. The third component is the list of library calls the
  request made.\<close>

definition forecast_next_15_days ::
  "'m statsmodels \<Rightarrow> Session \<Rightarrow> response \<times> lib_call list \<times> Session" where
  "forecast_next_15_days lib db =
     (let historical_data = load_water_levels db
      in if length historical_data < 10
         then (Inr (JObject [(''error'',
                  JString ''Not enough data to make a prediction. Please add more data points.'')]),
               [], db)
         else
           (case forecast_water_levels lib historical_data 15 of
              (Inl e, calls) \<Rightarrow> (Inl e, calls, db)
            | (Inr prediction, calls) \<Rightarrow>
                (Inr (JObject [(''15_day_forecast'',
                        JObject (map (\<lambda>(i, level). (''day_'' @ str_nat (i + 1), JNumber level))
                                     (enumerate 0 prediction)))]),
                 calls, db)))"

text \<open>A run of POST /water-level/ requests, one per level, each on the session the
  previous one left.\<close>

fun post_each :: "real list \<Rightarrow> Session \<Rightarrow> Session" where
  "post_each [] db = db"
| "post_each (x # xs) db = post_each xs (snd (add_water_level \<lparr>level = x\<rparr> db))"

subsection \<open>Concrete libraries and sessions\<close>


definition raising_lib :: "unit statsmodels" where
  "raising_lib = \<lparr>ARIMA_fit = (\<lambda>data order. Inl ''LinAlgError''), forecast = (\<lambda>m n. [])\<rparr>"


definition order_echo_lib :: "order statsmodels" where
  "order_echo_lib =
     \<lparr>ARIMA_fit = (\<lambda>data order. Inr order),
      forecast = (\<lambda>(p, d, q) n. [real p, real d, real q])\<rparr>"

text \<open>Two databases: one that executes every INSERT, and one that refuses the rows of one
  level.\<close>

definition accepts_all :: database where
  "accepts_all db r = True"

definition refuses_level :: "real \<Rightarrow> database" where
  "refuses_level v db r = (level_col r \<noteq> v)"

text \<open>The sessions of the spec's scenarios B, C and D: three single inserts, the ten
  levels 5.0, 5.1, 5.2, 5.0, 4.9, 5.3, 5.4, 5.2, 5.1, 5.0, and ten times the level 5.0.\<close>

definition scenario_B :: Session where
  "scenario_B = post_each [1, 2, 3] []"



section \<open>Lemmas about the session\<close>

lemma next_id_add: "next_id (db @ [\<lparr>id_col = next_id db, level_col = x\<rparr>]) = next_id db + 1"
  by (simp add: next_id_def)

text \<open>The rows a batch inserts: the levels in the order given, with the ids that follow
  the largest id of the table.\<close>

lemma add_all_rows:
  "add_all xs db =
     (map (\<lambda>(k, x). \<lparr>id_col = next_id db + int k, level_col = x\<rparr>) (enumerate 0 xs),
      db @ map (\<lambda>(k, x). \<lparr>id_col = next_id db + int k, level_col = x\<rparr>) (enumerate 0 xs))"
proof (induction xs arbitrary: db)
  case Nil
  show ?case by simp
next
  case (Cons x xs)
  let ?r = "\<lparr>id_col = next_id db, level_col = x\<rparr>"
  have shift:
    "map (\<lambda>(k, x). \<lparr>id_col = next_id (db @ [?r]) + int k, level_col = x\<rparr>) (enumerate 0 xs)
      = map (\<lambda>(k, x). \<lparr>id_col = next_id db + int k, level_col = x\<rparr>) (enumerate (Suc 0) xs)"
    by (simp add: next_id_add enumerate_Suc_eq case_prod_beta comp_def)
  show ?case
    by (simp add: add_def Let_def Cons.IH shift del: One_nat_def)
qed

lemma post_each_add_all: "post_each xs db = snd (add_all xs db)"
  by (induction xs arbitrary: db) (simp_all add: add_water_level_def case_prod_beta Let_def)

lemma post_each_rows:
  "post_each xs [] = map (\<lambda>(k, x). \<lparr>id_col = 1 + int k, level_col = x\<rparr>) (enumerate 0 xs)"
  by (simp add: post_each_add_all add_all_rows next_id_def initial_id_def)

lemma ids_upto: "map (\<lambda>k. 1 + int k) [0..<n] = [1..int n]"
  by (induction n) (simp_all add: upto_rec2)

lemma fold_max_ge: "x \<in> set xs \<Longrightarrow> x \<le> fold max xs (a::int)"
proof -
  assume "x \<in> set xs"
  then have "x \<le> Max (set (a # xs))" by (intro Max_ge) simp_all
  then show ?thesis by (simp only: Max.set_eq_fold)
qed

lemma map_enumerate_snd: "map (\<lambda>(k, x). f x) (enumerate n xs) = map f xs"
  by (induction xs arbitrary: n) simp_all

lemma map_enumerate_fst: "map (\<lambda>(k, x). g k) (enumerate n xs) = map g [n..<n + length xs]"
proof -
  have "map (\<lambda>(k, x). g k) ys = map g (map fst ys)" for ys :: "(nat \<times> 'b) list"
    by (induction ys) auto
  then show ?thesis by (simp only: map_fst_enumerate)
qed

text \<open>The inserts keep the table ordered by its primary key: the id of a new row is
  larger than every id of the table.\<close>

lemma next_id_greater: "r \<in> set db \<Longrightarrow> id_col r < next_id db"
proof -
  assume "r \<in> set db"
  then have "id_col r \<le> fold max (map id_col db) (initial_id - 1)"
    by (intro fold_max_ge) simp
  then show ?thesis by (simp add: next_id_def)
qed

lemma pk_increasing_add: "pk_increasing db \<Longrightarrow> pk_increasing (snd (add x db))"
  by (auto simp add: pk_increasing_def add_def Let_def sorted_wrt_append next_id_greater)

lemma pk_increasing_add_all: "pk_increasing db \<Longrightarrow> pk_increasing (snd (add_all xs db))"
proof (induction xs arbitrary: db)
  case Nil
  then show ?case by simp
next
  case (Cons x xs)
  from Cons.prems have "pk_increasing (snd (add x db))"
    by (rule pk_increasing_add)
  then have "pk_increasing (snd (add_all xs (snd (add x db))))"
    by (rule Cons.IH)
  then show ?case
    by (simp add: case_prod_beta)
qed

lemma pk_increasing_add_water_level:
  "pk_increasing db \<Longrightarrow> pk_increasing (snd (add_water_level data db))"
  using pk_increasing_add [of db "level data"]
  by (simp add: add_water_level_def case_prod_beta)

lemma pk_increasing_add_multiple_water_levels:
  "pk_increasing db \<Longrightarrow> pk_increasing (snd (add_multiple_water_levels data db))"
  using pk_increasing_add_all [of db "map level (levels data)"]
  by (simp add: add_multiple_water_levels_def case_prod_beta)

lemma order_by_sorted: "pk_increasing db \<Longrightarrow> order_by_id_desc db = rev db"
  by (simp add: pk_increasing_def order_by_id_desc_def sort_key_id_if_sorted
      strict_sorted_imp_sorted)

lemma order_by_id_desc_Nil: "order_by_id_desc db = [] \<longleftrightarrow> db = []"
proof -
  have "length (order_by_id_desc db) = length db"
    by (simp add: order_by_id_desc_def)
  then show ?thesis by (metis length_0_conv)
qed

lemma first_rev: "xs \<noteq> [] \<Longrightarrow> first (rev xs) = Some (last xs)"
  by (cases xs rule: rev_cases) (simp_all add: first_def)

lemma first_None: "first xs = None \<longleftrightarrow> xs = []"
  by (simp add: first_def split: list.split)

text \<open>Whatever the order of the rows, the latest request raises exactly on the empty
  table.\<close>

lemma latest_raises_iff_empty: "isl (fst (get_latest_water_level db)) \<longleftrightarrow> db = []"
proof (cases "first (order_by_id_desc db)")
  case None
  then have "db = []"
    by (simp add: first_None order_by_id_desc_Nil)
  with None show ?thesis
    by (simp add: get_latest_water_level_def)
next
  case (Some r)
  then have "db \<noteq> []"
    using first_None [of "order_by_id_desc db"] by (simp add: order_by_id_desc_Nil)
  with Some show ?thesis
    by (simp add: get_latest_water_level_def)
qed

lemma scenario_B_rows:
  "scenario_B = [\<lparr>id_col = 1, level_col = 1\<rparr>, \<lparr>id_col = 2, level_col = 2\<rparr>,
                 \<lparr>id_col = 3, level_col = 3\<rparr>]"
  by (simp add: scenario_B_def post_each_rows)



text \<open>One commit of a list of rows: every INSERT is executed and the rows are those of
  \<open>add_all\<close>, or one is refused and nothing is written. The k-th INSERT (from 0) meets
  the table with the first k rows of the commit in it.\<close>

lemma flush_add_all:
  "flush accepts xs db =
     (if (\<forall>k<length xs. accepts (db @ take k (fst (add_all xs db))) (fst (add_all xs db) ! k))
      then Some (add_all xs db) else None)"
proof (induction xs arbitrary: db)
  case Nil
  show ?case by simp
next
  case (Cons x xs)
  show ?case
    by (simp add: Cons.IH add_def Let_def case_prod_beta All_less_Suc2)
qed

text \<open>The model tells one commit for the batch from one commit per entry: three requests
  of one entry each, on a database that refuses the level 2, leave the first and the third
  entry in the table.\<close>

lemma one_commit_per_entry_stores_a_part:
  "fold (\<lambda>x db. snd (add_multiple_water_levels_tx (refuses_level 2)
                        \<lparr>levels = [\<lparr>level = x\<rparr>]\<rparr> db))
      [1, 2, 3] [] =
     [\<lparr>id_col = 1, level_col = 1\<rparr>, \<lparr>id_col = 2, level_col = 3\<rparr>]"
  by (simp add: add_multiple_water_levels_tx_def commit_def add_def refuses_level_def
      next_id_def initial_id_def Let_def)



section \<open>The forecast endpoint\<close>

text \<open>
  C1. With fewer than 10 rows in the table, a forecast request makes no call into the
  library (its list of calls is empty, so no model is fitted), and answers with the
  dictionary that holds the explanatory message under the key \<^verbatim>\<open>error\<close>. The
  answer is a returned value, sent with status 200, not a raised exception.
\<close>

theorem forecast_insufficient_data:
  "length db < 10 \<Longrightarrow>
   forecast_next_15_days lib db =
     (Inr (JObject [(''error'',
        JString ''Not enough data to make a prediction. Please add more data points.'')]),
      [], db)"
  by (simp add: forecast_next_15_days_def load_water_levels_def)

theorem forecast_insufficient_data_witness:
  "length scenario_B < 10 \<and>
   forecast_next_15_days raising_lib scenario_B =
     (Inr (JObject [(''error'',
        JString ''Not enough data to make a prediction. Please add more data points.'')]),
      [], scenario_B)"
  using forecast_insufficient_data [of scenario_B raising_lib]
  by (simp add: scenario_B_rows)




text \<open>
  C3. Every invocation of the forecast engine fits with the order (5, 1, 0):
  autoregressive lag 5, differencing 1, moving average 0. What the engine returns is what
  the library's fit at the order (5, 1, 0), on the series given, returns or raises; what
  the library would do at any other order has no part in it; and exactly one fit is made,
  on that series and at that order. The same holds of the one invocation that a forecast
  request makes once the table has 10 rows.
\<close>

theorem arima_order_fixed:
  "fst (forecast_water_levels lib data days_ahead) =
     (case ARIMA_fit lib data (5, 1, 0) of
        Inl msg \<Rightarrow> Inl (LibError msg)
      | Inr model_fit \<Rightarrow> Inr (forecast lib model_fit days_ahead))
   \<and> forecast_water_levels
        (lib\<lparr>ARIMA_fit :=
              \<lambda>d ord. if ord = (5, 1, 0) then ARIMA_fit lib d ord else other d ord\<rparr>)
        data days_ahead
      = forecast_water_levels lib data days_ahead
   \<and> filter is_Fit (snd (forecast_water_levels lib data days_ahead)) = [Fit data (5, 1, 0)]
   \<and> fst (forecast_next_15_days lib db) =
     (if length db < 10
      then Inr (JObject [(''error'',
             JString ''Not enough data to make a prediction. Please add more data points.'')])
      else (case ARIMA_fit lib (load_water_levels db) (5, 1, 0) of
              Inl msg \<Rightarrow> Inl (LibError msg)
            | Inr model_fit \<Rightarrow>
                Inr (JObject [(''15_day_forecast'',
                  JObject (map (\<lambda>(i, level). (''day_'' @ str_nat (i + 1), JNumber level))
                            (enumerate 0 (forecast lib model_fit 15))))])))
   \<and> filter is_Fit (fst (snd (forecast_next_15_days lib db))) =
     (if length db < 10 then [] else [Fit (load_water_levels db) (5, 1, 0)])"
  by (simp add: forecast_next_15_days_def load_water_levels_def forecast_water_levels_def
      split: sum.split prod.split)

text \<open>On the library whose forecast is the order it was fitted with, the engine returns
  5, 1, 0.\<close>

theorem arima_order_fixed_witness:
  "fst (forecast_water_levels order_echo_lib [1, 2, 3] 15) = Inr [5, 1, 0]"
  using arima_order_fixed [of order_echo_lib "[1, 2, 3]" 15]
  by (simp add: order_echo_lib_def)




section \<open>The reading store\<close>

text \<open>
  C4. On a table ordered by its primary key: when the table has a row, the latest
  request returns the level that is the last element of the list the all request returns;
  and each of the two requests raises the 404 \<^verbatim>\<open>HTTPException\<close>, with the detail
  \<^verbatim>\<open>No water level data available\<close>, exactly when the table is empty.
\<close>

theorem latest_is_last_of_all:
  assumes "pk_increasing db"
  shows "fst (get_latest_water_level db) =
      (if db = [] then Inl (HTTPException 404 ''No water level data available'')
       else Inr (JObject [(''latest_level'',
                   last (map (\<lambda>entry. JNumber (level_col entry)) db))]))
    \<and> fst (get_all_water_levels db) =
      (if db = [] then Inl (HTTPException 404 ''No water level data available'')
       else Inr (JObject [(''all_levels'',
                   JArray (map (\<lambda>entry. JNumber (level_col entry)) db))]))
    \<and> (isl (fst (get_latest_water_level db)) \<longleftrightarrow> db = [])
    \<and> (isl (fst (get_all_water_levels db)) \<longleftrightarrow> db = [])"
proof (cases "db = []")
  case True
  then show ?thesis
    by (simp add: get_latest_water_level_def get_all_water_levels_def query_all_def
        order_by_id_desc_def first_def)
next
  case False
  with assms have "first (order_by_id_desc db) = Some (last db)"
    by (simp add: order_by_sorted first_rev)
  with False show ?thesis
    by (simp add: get_latest_water_level_def get_all_water_levels_def query_all_def last_map)
qed

theorem latest_is_last_of_all_witness:
  "pk_increasing scenario_B \<and>
   fst (get_latest_water_level scenario_B) = Inr (JObject [(''latest_level'', JNumber 3)]) \<and>
   fst (get_all_water_levels scenario_B) =
     Inr (JObject [(''all_levels'', JArray [JNumber 1, JNumber 2, JNumber 3])]) \<and>
   pk_increasing [] \<and>
   fst (get_latest_water_level []) =
     Inl (HTTPException 404 ''No water level data available'') \<and>
   fst (get_all_water_levels []) = Inl (HTTPException 404 ''No water level data available'')"
  using latest_is_last_of_all [of scenario_B] latest_is_last_of_all [of "[]"]
  by (simp add: scenario_B_rows pk_increasing_def)

text \<open>
  C5, as stated, at N = 0: after no insertion the all request does not return the empty
  list of levels; it raises the 404 \<^verbatim>\<open>HTTPException\<close>.
\<close>

theorem all_after_no_insert:
  "fst (get_all_water_levels (post_each [] [])) =
     Inl (HTTPException 404 ''No water level data available'') \<and>
   fst (get_all_water_levels (post_each [] [])) \<noteq>
     Inr (JObject [(''all_levels'', JArray (map JNumber []))])"
  by (simp add: get_all_water_levels_def query_all_def)

text \<open>
  C5, amended. After N single insertions into the empty table (N \<ge> 0), the table holds
  exactly the N levels in the order of insertion, with the ids \<open>initial_id\<close>, ...,
  \<open>initial_id + N - 1\<close>: strictly increasing and without a gap. The all request returns
  those N levels in that order when N \<ge> 1, and raises the 404 when N = 0.
\<close>

theorem inserts_then_all:
  "load_water_levels (post_each xs []) = xs \<and>
   map id_col (post_each xs []) = [initial_id..initial_id + int (length xs) - 1] \<and>
   pk_increasing (post_each xs []) \<and>
   fst (get_all_water_levels (post_each xs [])) =
     (if xs = [] then Inl (HTTPException 404 ''No water level data available'')
      else Inr (JObject [(''all_levels'', JArray (map JNumber xs))]))"
proof -
  have lv: "map level_col (post_each xs []) = xs"
    by (simp add: post_each_rows comp_def case_prod_beta
        map_enumerate_snd [of "\<lambda>x. x", unfolded case_prod_beta])
  have "map id_col (post_each xs []) = map (\<lambda>k. 1 + int k) [0..<length xs]"
    by (simp add: post_each_rows comp_def case_prod_beta
        map_enumerate_fst [of "\<lambda>k. 1 + int k" 0, unfolded case_prod_beta])
  then have ids: "map id_col (post_each xs []) = [1..int (length xs)]"
    by (simp only: ids_upto)
  have "length (post_each xs []) = length xs"
    by (simp add: post_each_rows)
  then have e: "post_each xs [] = [] \<longleftrightarrow> xs = []"
    by (metis length_0_conv)
  have "map (\<lambda>entry. JNumber (level_col entry)) (post_each xs []) =
      map JNumber (map level_col (post_each xs []))"
    by simp
  then have js: "map (\<lambda>entry. JNumber (level_col entry)) (post_each xs []) = map JNumber xs"
    by (simp only: lv)
  show ?thesis
    by (simp add: load_water_levels_def lv ids initial_id_def pk_increasing_def
        get_all_water_levels_def query_all_def e js)
qed

text \<open>On a database that executes every statement, a batch insert answers with the
  success message and the levels of the request, and the table afterwards is the table
  before followed by one row per entry, in the order of the request, the k-th entry (from
  0) with the id \<open>next_id db + k\<close>.\<close>

lemma batch_insert_consecutive:
  "add_multiple_water_levels data db =
     (Inr (JObject [(''message'', JString ''Water levels added successfully''),
                    (''levels'', JArray (map (\<lambda>entry. JNumber (level entry)) (levels data)))]),
      db @ map (\<lambda>(k, entry). \<lparr>id_col = next_id db + int k, level_col = level entry\<rparr>)
             (enumerate 0 (levels data)))"
proof -
  have "enumerate 0 (map level (levels data)) =
      map (\<lambda>(k, entry). (k, level entry)) (enumerate 0 (levels data))"
    by (simp add: enumerate_eq_zip zip_map2)
  then show ?thesis
    by (simp add: add_multiple_water_levels_def add_all_rows case_prod_beta comp_def
        map_enumerate_snd [of "\<lambda>e. JNumber (level e)", unfolded case_prod_beta])
qed

text \<open>
  C6. A batch insert has two outcomes, on any database. Either the database executes the
  INSERT of every entry, the k-th (from 0) into the table that already holds the first k:
  then the request succeeds, and the table afterwards is the table before followed by one
  row per entry, in the order of the request, with the consecutive ids \<open>next_id db\<close>,
  \<open>next_id db + 1\<close>, ... Or the database refuses one of them: then the request raises
  and the table is the table before, with no entry of the request in it. On a database
  that executes everything, the handler is \<open>add_multiple_water_levels\<close>.
\<close>

theorem batch_insert_atomic:
  "add_multiple_water_levels_tx accepts data db =
     (let rows = map (\<lambda>(k, entry). \<lparr>id_col = next_id db + int k, level_col = level entry\<rparr>)
                   (enumerate 0 (levels data))
      in if list_all (\<lambda>k. accepts (db @ take k rows) (rows ! k)) [0..<length rows]
         then (Inr (JObject [(''message'', JString ''Water levels added successfully''),
                  (''levels'', JArray (map (\<lambda>entry. JNumber (level entry)) (levels data)))]),
               db @ rows)
         else (Inl DBAPIError, db))
   \<and> add_multiple_water_levels_tx accepts_all data db = add_multiple_water_levels data db"
proof -
  let ?rows = "map (\<lambda>(k, entry). \<lparr>id_col = next_id db + int k, level_col = level entry\<rparr>)
                   (enumerate 0 (levels data))"
  have e: "enumerate 0 (map level (levels data)) =
      map (\<lambda>(k, entry). (k, level entry)) (enumerate 0 (levels data))"
    by (simp add: enumerate_eq_zip zip_map2)
  have r: "add_all (map level (levels data)) db = (?rows, db @ ?rows)"
    by (simp add: add_all_rows e case_prod_beta comp_def)
  have j: "map (\<lambda>entry. JNumber (level_col entry)) ?rows =
      map (\<lambda>entry. JNumber (level entry)) (levels data)"
    by (simp add: case_prod_beta comp_def
        map_enumerate_snd [of "\<lambda>e. JNumber (level e)", unfolded case_prod_beta])
  have 1: "add_multiple_water_levels_tx accepts data db =
     (if list_all (\<lambda>k. accepts (db @ take k ?rows) (?rows ! k)) [0..<length ?rows]
      then (Inr (JObject [(''message'', JString ''Water levels added successfully''),
               (''levels'', JArray (map (\<lambda>entry. JNumber (level entry)) (levels data)))]),
            db @ ?rows)
      else (Inl DBAPIError, db))" for accepts
    unfolding add_multiple_water_levels_tx_def commit_def flush_add_all r j [symmetric]
    by (simp add: list_all_iff)
  have 2: "add_multiple_water_levels data db =
     (Inr (JObject [(''message'', JString ''Water levels added successfully''),
             (''levels'', JArray (map (\<lambda>entry. JNumber (level entry)) (levels data)))]),
      db @ ?rows)"
    unfolding add_multiple_water_levels_def r j [symmetric] by simp
  show ?thesis
    unfolding Let_def 2 by (simp add: 1 accepts_all_def list_all_iff)
qed

text \<open>On the three rows of scenario B and a database that refuses the level 2: the
  batch 1, 2, 3 raises and leaves the table as it was; the batch 4, 6 is stored whole,
  with the ids 4 and 5.\<close>

theorem batch_insert_atomic_witness:
  "add_multiple_water_levels_tx (refuses_level 2)
      \<lparr>levels = [\<lparr>level = 1\<rparr>, \<lparr>level = 2\<rparr>, \<lparr>level = 3\<rparr>]\<rparr> scenario_B =
     (Inl DBAPIError, scenario_B) \<and>
   add_multiple_water_levels_tx (refuses_level 2)
      \<lparr>levels = [\<lparr>level = 4\<rparr>, \<lparr>level = 6\<rparr>]\<rparr> scenario_B =
     (Inr (JObject [(''message'', JString ''Water levels added successfully''),
                    (''levels'', JArray [JNumber 4, JNumber 6])]),
      scenario_B @ [\<lparr>id_col = 4, level_col = 4\<rparr>, \<lparr>id_col = 5, level_col = 6\<rparr>])"
  using batch_insert_atomic [of "refuses_level 2"
      "\<lparr>levels = [\<lparr>level = 1\<rparr>, \<lparr>level = 2\<rparr>, \<lparr>level = 3\<rparr>]\<rparr>" scenario_B]
    batch_insert_atomic [of "refuses_level 2"
      "\<lparr>levels = [\<lparr>level = 4\<rparr>, \<lparr>level = 6\<rparr>]\<rparr>" scenario_B]
  by (simp add: scenario_B_rows refuses_level_def next_id_def initial_id_def Let_def
      eval_nat_numeral upt_rec)

text \<open>
  C10. A batch insert of the empty list succeeds: it answers with the success message and
  an empty list of levels, and the table is as it was.
\<close>

theorem batch_insert_empty:
  "add_multiple_water_levels \<lparr>levels = []\<rparr> db =
     (Inr (JObject [(''message'', JString ''Water levels added successfully''),
                    (''levels'', JArray [])]), db)"
  by (simp add: add_multiple_water_levels_def)

section \<open>The GET requests do not write\<close>

text \<open>
  C9. The latest, all and forecast requests leave the table as it was, whether they
  return a value or raise.
\<close>

theorem get_requests_leave_store:
  "snd (get_latest_water_level db) = db \<and>
   snd (get_all_water_levels db) = db \<and>
   snd (snd (forecast_next_15_days lib db)) = db"
  by (simp add: get_latest_water_level_def get_all_water_levels_def forecast_next_15_days_def
      Let_def split: option.split sum.split prod.split)

end
